theory Spec2Isabelle
  imports Complex_Main
begin

section \<open>Values\<close>

text \<open>
  A NumPy float is finite, an infinity or NaN. A finite float is modelled by the real
  number it stands for, of magnitude at most \<open>fmax\<close>, the largest double; the result of an
  operation that lies beyond \<open>fmax\<close> is an infinity. The rounding of the mantissa and
  underflow are not modelled.
\<close>

datatype fl = Fin real | PInf | NInf | NaN

definition fmax :: real where
  "fmax = 17976931348623157 * 10 ^ 292"

text \<open>\<open>np.finfo(float).tiny\<close>, the tolerance of the masked division.\<close>

definition tiny :: real where
  "tiny = 22250738585072014 / 10 ^ 324"

definition fl_of :: "real \<Rightarrow> fl" where
  "fl_of r = (if r > fmax then PInf else if r < - fmax then NInf else Fin r)"

fun isnan :: "fl \<Rightarrow> bool" where
  "isnan NaN = True"
| "isnan _ = False"

fun isfinite :: "fl \<Rightarrow> bool" where
  "isfinite (Fin _) = True"
| "isfinite _ = False"

fun fl_abs :: "fl \<Rightarrow> fl" where
  "fl_abs (Fin a) = Fin \<bar>a\<bar>"
| "fl_abs PInf = PInf"
| "fl_abs NInf = PInf"
| "fl_abs NaN = NaN"

text \<open>\<open>a > b\<close> on floats: every comparison with NaN is false.\<close>

fun fl_gt :: "fl \<Rightarrow> fl \<Rightarrow> bool" where
  "fl_gt (Fin a) (Fin b) = (a > b)"
| "fl_gt PInf (Fin _) = True"
| "fl_gt PInf NInf = True"
| "fl_gt (Fin _) NInf = True"
| "fl_gt _ _ = False"

text \<open>\<open>w * x\<close> and \<open>x / s\<close> for a finite factor \<open>w\<close> and a finite divisor \<open>s\<close>.\<close>

fun times_fl :: "real \<Rightarrow> fl \<Rightarrow> fl" where
  "times_fl w (Fin a) = fl_of (w * a)"
| "times_fl w PInf = (if w > 0 then PInf else if w < 0 then NInf else NaN)"
| "times_fl w NInf = (if w > 0 then NInf else if w < 0 then PInf else NaN)"
| "times_fl w NaN = NaN"

fun div_fl :: "fl \<Rightarrow> real \<Rightarrow> fl" where
  "div_fl (Fin a) s =
     (if s \<noteq> 0 then fl_of (a / s) else if a > 0 then PInf else if a < 0 then NInf else NaN)"
| "div_fl PInf s = (if s \<ge> 0 then PInf else NInf)"
| "div_fl NInf s = (if s \<ge> 0 then NInf else PInf)"
| "div_fl NaN s = NaN"

text \<open>
  An element of a \<open>numpy.ma\<close> masked array is \<open>None\<close> when it is masked. The same type
  carries the data of a draw call: an ordinary (unmasked) array element \<open>v\<close> is \<open>Some v\<close>.

  \<open>np.ma.array(data, mask=np.isnan(data))\<close> masks the NaN elements.
  Multiplication keeps the mask. Division of a masked array is \<open>numpy.ma.true_divide\<close>,
  which masks, besides the masked operands, every quotient that is not finite and every
  element outside the domain of the division: those with
  \<open>abs(a) * tiny >= abs(b)\<close>, which holds for every \<open>a\<close> when \<open>b\<close> is zero.
\<close>

definition ma_array :: "fl list \<Rightarrow> fl option list" where
  "ma_array data = map (\<lambda>x. if isnan x then None else Some x) data"

definition ma_mul :: "real \<Rightarrow> fl option \<Rightarrow> fl option" where
  "ma_mul w m = map_option (times_fl w) m"

definition outside_domain :: "fl \<Rightarrow> real \<Rightarrow> bool" where
  "outside_domain x s =
     (case x of Fin a \<Rightarrow> \<bar>a\<bar> * tiny \<ge> \<bar>s\<bar> | NaN \<Rightarrow> False | _ \<Rightarrow> True)"

definition ma_div :: "fl option \<Rightarrow> real \<Rightarrow> fl option" where
  "ma_div m s =
     (case m of
        None \<Rightarrow> None
      | Some x \<Rightarrow>
          (if isfinite (div_fl x s) \<and> \<not> outside_domain x s then Some (div_fl x s) else None))"

text \<open>
  \<open>flux_scaling * masked / scaling\<close>, where \<open>flux_scaling\<close> is the wavelength array when
  \<open>quantity == "flux"\<close> and \<open>1.0\<close> otherwise.
\<close>

definition flux_scaling :: "string \<Rightarrow> real \<Rightarrow> real" where
  "flux_scaling quantity wavelength = (if quantity = ''flux'' then wavelength else 1)"

definition ma_scale :: "string \<Rightarrow> real \<Rightarrow> real list \<Rightarrow> fl option list \<Rightarrow> fl option list" where
  "ma_scale quantity scaling wavelength masked =
     map (\<lambda>(w, m). ma_div (ma_mul (flux_scaling quantity w) m) scaling) (zip wavelength masked)"

text \<open>The same expression on an ordinary float: nothing is masked.\<close>

definition fl_scale :: "string \<Rightarrow> real \<Rightarrow> real \<Rightarrow> fl \<Rightarrow> fl" where
  "fl_scale quantity scaling wavelength x =
     div_fl (times_fl (flux_scaling quantity wavelength) x) scaling"

text \<open>
  Python values that occur in \<open>plot_kwargs\<close>. A dictionary is an association list in
  insertion order, its keys strings and distinct.
\<close>

datatype pyval =
    VNone
  | VStr string
  | VNum real
  | VBool bool
  | VDict "(string \<times> pyval) list"
  | VList "pyval list"

type_synonym pydict = "(string \<times> pyval) list"

definition has_key :: "string \<Rightarrow> pydict \<Rightarrow> bool" where
  "has_key k d = (map_of d k \<noteq> None)"

text \<open>\<open>d[k] = v\<close>: an existing key keeps its place, a new key goes to the end.\<close>

fun dict_set :: "string \<Rightarrow> pyval \<Rightarrow> pydict \<Rightarrow> pydict" where
  "dict_set k v [] = [(k, v)]"
| "dict_set k v ((k', v') # d) = (if k' = k then (k, v) # d else (k', v') # dict_set k v d)"

text \<open>\<open>del d[k]\<close>, used only behind \<open>k in d\<close>.\<close>

definition dict_del :: "string \<Rightarrow> pydict \<Rightarrow> pydict" where
  "dict_del k d = filter (\<lambda>kv. fst kv \<noteq> k) d"

text \<open>\<open>if k not in d: d[k] = v\<close>\<close>

definition set_default :: "string \<Rightarrow> pyval \<Rightarrow> pydict \<Rightarrow> pydict" where
  "set_default k v d = (if has_key k d then d else dict_set k v d)"

text \<open>Truth value of an entry of \<open>plot_kwargs\<close>: \<open>None\<close> and \<open>{}\<close> are false.\<close>

definition truthy :: "pydict option \<Rightarrow> bool" where
  "truthy kw = (case kw of None \<Rightarrow> False | Some d \<Rightarrow> d \<noteq> [])"

section \<open>Errors, draw calls, state\<close>

datatype error =
    LengthMismatch       \<comment> \<open>ValueError: number of boxes and of items in plot_kwargs\<close>
  | ListRequired         \<comment> \<open>ValueError: a list with N dictionaries is required\<close>
  | ObjectBoxNotFound    \<comment> \<open>ValueError: ObjectBox not found so can not create residuals\<close>
  | MathDomainError      \<comment> \<open>ValueError of \<open>math.log10\<close> at a non-positive argument\<close>
  | EmptyReduction       \<comment> \<open>ValueError of \<open>np.max\<close> or \<open>np.nanmax\<close> on an empty array\<close>
  | ShapeMismatch        \<comment> \<open>ValueError of NumPy: arrays of different lengths\<close>
  | OverflowError        \<comment> \<open>\<open>math.ceil\<close> of an infinity\<close>
  | CeilNaN              \<comment> \<open>ValueError of \<open>math.ceil\<close> at NaN\<close>
  | TypeError            \<comment> \<open>a value of the wrong type, or a keyword argument given twice\<close>
  | AttributeError       \<comment> \<open>\<open>.copy()\<close> of a value that has none\<close>
  | IndexError
  | KeyError
  | UnboundLocalError

datatype panel = Ax1 | Ax2 | Ax3

text \<open>
  The y-axis label of the main panel. \<open>FluxDensityLabel (Some e)\<close> is the string
  \<open>F_lambda (10^{e} W m^-2 um^-1)\<close>, \<open>FluxLabel (Some e)\<close> is
  \<open>lambda F_lambda (10^{e} W m^-2)\<close>; with \<open>None\<close> the label has no power of ten.
  \<open>ContrastLabel\<close> is \<open>Contrast (mag)\<close>.
\<close>

datatype ylabel = ContrastLabel | FluxDensityLabel "int option" | FluxLabel "int option"

text \<open>
  The calls on the plotting library that the model records, in the order in which they
  are made. \<open>yerr\<close> is \<open>None\<close> when the call passes \<open>yerr=None\<close> or no \<open>yerr\<close>; every other
  keyword argument is in the dictionary, explicit keywords first.
\<close>

datatype event =
    Figure "nat list"                                                \<comment> \<open>GridSpec height ratios\<close>
  | SetYLabel panel ylabel
  | SetYLim panel real real
  | AxHLine panel real pydict
  | Plot panel "real list" "fl option list" pydict
  | ErrorBar panel "real list" "fl option list" "fl option list option" pydict
  | FillBetween panel "real list" "fl list" "fl list" pydict

record state =
  events :: "event list"
  plot_kwargs :: "pydict option list"
  plot_obj :: "pyval option"      \<comment> \<open>colour of \<open>plot_obj[0]\<close>; \<open>None\<close> while unbound\<close>

type_synonym step = "error option \<times> state"

definition emit :: "event \<Rightarrow> state \<Rightarrow> state" where
  "emit ev st = st\<lparr>events := events st @ [ev]\<rparr>"

text \<open>\<open>plot_kwargs[j]\<close> and \<open>plot_kwargs[j] = d\<close>\<close>

definition kw_get :: "nat \<Rightarrow> state \<Rightarrow> error + pydict option" where
  "kw_get j st = (if j < length (plot_kwargs st) then Inr (plot_kwargs st ! j) else Inl IndexError)"

definition kw_set :: "nat \<Rightarrow> pydict \<Rightarrow> state \<Rightarrow> state" where
  "kw_set j d st = st\<lparr>plot_kwargs := (plot_kwargs st)[j := Some d]\<rparr>"

text \<open>
  A value used as a style dictionary (\<open>"zorder" not in v\<close>, \<open>v["zorder"] = ...\<close>,
  \<open>**v\<close>): any value but a dictionary ends in a TypeError before anything is drawn or
  changed.
\<close>

fun as_dict :: "pyval \<Rightarrow> error + pydict" where
  "as_dict (VDict d) = Inr d"
| "as_dict _ = Inl TypeError"

text \<open>
  \<open>v.copy()\<close> followed by the same uses: a list has a \<open>copy\<close> method and fails later with
  a TypeError, the other values have none.
\<close>

fun copy_dict :: "pyval \<Rightarrow> error + pydict" where
  "copy_dict (VDict d) = Inr d"
| "copy_dict (VList _) = Inl TypeError"
| "copy_dict _ = Inl AttributeError"

text \<open>
  \<open>f(..., k1=..., k2=..., **d)\<close>: Python raises a TypeError when \<open>d\<close> has one of the
  keywords written in the call.
\<close>

definition kw_clash :: "string list \<Rightarrow> pydict \<Rightarrow> bool" where
  "kw_clash names d = (\<exists>k \<in> set names. has_key k d)"

text \<open>
  The collaborators: the filter lookup, the model-label formatter (already applied to the
  call's \<open>object_type\<close>, \<open>leg_param\<close>, \<open>param_fmt\<close> and \<open>inc_model_name\<close>),
  \<open>np.percentile\<close> of the values of one wavelength sample, the colour that the plotting
  library gives to the line of a draw call, from the call's keyword arguments and the
  number of calls recorded before it, and the limits that \<open>ax1.get_ylim()\<close> returns after
  \<open>ax1.set_ylim\<close> on an axis of the given scale (the library may change the limits it is
  given: it widens equal limits, and on a logarithmic axis it refuses a limit that is not
  positive).
\<close>

record env =
  mean_wavelength :: "string \<Rightarrow> real"
  filter_fwhm :: "string \<Rightarrow> real"
  get_filter :: "string \<Rightarrow> (real \<times> real) list"
  create_model_label :: "string \<Rightarrow> (string \<times> real) list \<Rightarrow> pyval"
  percentile :: "real \<Rightarrow> fl list \<Rightarrow> fl"
  get_color :: "pydict \<Rightarrow> nat \<Rightarrow> pyval"
  get_ylim :: "string \<Rightarrow> real \<times> real \<Rightarrow> real \<times> real"

section \<open>Boxes\<close>

text \<open>
  A spectrum is its samples: wavelength (finite) and flux. The wavelength and flux arrays
  of a box have the same length.
\<close>

type_synonym spectrum = "(real \<times> fl) list"

record phot_point =
  pt_wavelength :: real           \<comment> \<open>\<open>wavelength[i]\<close>\<close>
  pt_filter_name :: string        \<comment> \<open>\<open>filter_name[i]\<close>\<close>
  pt_flux :: fl                   \<comment> \<open>\<open>flux[i][0]\<close>\<close>
  pt_flux_error :: "fl option"    \<comment> \<open>\<open>flux[i][1]\<close>, which may be \<open>None\<close>\<close>

text \<open>
  A photometry entry of an ObjectBox: a pair (flux, error), or a 2-D array of repeated
  measurements, one (flux, error) column each.
\<close>

datatype object_flux = SingleFlux fl fl | MultiFlux "(fl \<times> fl) list"

text \<open>
  The items of \<open>boxes\<close>. A SpectrumBox holds one spectrum (\<open>wavelength[0]\<close> is a
  \<open>np.float32\<close> or \<open>np.float64\<close>) or several named ones (\<open>SpectrumBoxes\<close>: \<open>wavelength[0]\<close> is
  an array). \<open>SpectrumBoxOther\<close> and \<open>ModelBoxOther\<close> are a SpectrumBox and a ModelBox whose
  \<open>wavelength[0]\<close> is of another type (an integer, a Python float), for which lines 567
  and 622 have no branch. \<open>BoxList\<close> is a Python list of ModelBox objects. The spectra of
  an ObjectBox have the columns wavelength, flux and error. \<open>OtherBox\<close> is any other
  object, which the loop skips.
\<close>

datatype box =
    SpectrumBox spectrum
  | SpectrumBoxes "(string \<times> spectrum) list"
  | SpectrumBoxOther spectrum
  | ModelBox string "(string \<times> real) list" spectrum
  | ModelBoxOther string "(string \<times> real) list" spectrum
  | BoxList "spectrum list"
  | PhotometryBox "phot_point list"
  | ObjectBox "(string \<times> (real \<times> fl \<times> fl) list) list option" "(string \<times> object_flux) list option"
  | SynphotBox "(string \<times> fl) list"
  | OtherBox

datatype residual_phot = Res1 real fl | Res2 "(real \<times> fl) list"

record residuals_box =
  res_photometry :: "(string \<times> residual_phot) list option"
  res_spectrum :: "(string \<times> (real \<times> fl) list) list option"

section \<open>The scale of the main panel (lines 454 to 519)\<close>

text \<open>
  The result is the scaling, or the error raised. After \<open>ax1.set_ylim\<close> the limits are
  read back with \<open>ax1.get_ylim()\<close>, and the exponent is taken from the upper limit read.
\<close>

definition set_scaling ::
  "env \<Rightarrow> string \<Rightarrow> (real \<times> real) option \<Rightarrow> string \<Rightarrow> state \<Rightarrow> (error + real) \<times> state" where
  "set_scaling E quantity ylim yscale st =
     (if quantity = ''magnitude'' then
        (let st1 = emit (SetYLabel Ax1 ContrastLabel) st
         in (Inr 1, case ylim of None \<Rightarrow> st1 | Some l \<Rightarrow> emit (SetYLim Ax1 (fst l) (snd l)) st1))
      else
        (case ylim of
           Some l \<Rightarrow>
             (let st1 = emit (SetYLim Ax1 (fst l) (snd l)) st;
                  lo = fst (get_ylim E yscale l);
                  hi = snd (get_ylim E yscale l)
              in if yscale = ''linear'' \<and> hi \<le> 0 then (Inl MathDomainError, st1)
                 else
                   (let exponent = (if yscale = ''linear'' then Some \<lfloor>log 10 hi\<rfloor> else None);
                        scaling = (case exponent of Some e \<Rightarrow> 10 powi e | None \<Rightarrow> 1)
                    in if quantity \<noteq> ''flux density'' \<and> quantity \<noteq> ''flux''
                       then (Inl UnboundLocalError, st1)
                       else
                         (let ylabel = (if quantity = ''flux density''
                                        then FluxDensityLabel exponent
                                        else FluxLabel exponent);
                              st2 = emit (SetYLabel Ax1 ylabel) st1;
                              st3 = emit (SetYLim Ax1 (lo / scaling) (hi / scaling)) st2;
                              st4 = (if lo < 0
                                     then emit (AxHLine Ax1 0
                                            [(''ls'', VStr ''--''), (''lw'', VNum 0.7),
                                             (''color'', VStr ''gray''),
                                             (''dashes'', VList [VNum 2, VNum 4]),
                                             (''zorder'', VNum 0.5)]) st3
                                     else st3)
                          in (Inr scaling, st4))))
         | None \<Rightarrow>
             (Inr 1,
              if quantity = ''flux density'' then emit (SetYLabel Ax1 (FluxDensityLabel None)) st
              else if quantity = ''flux'' then emit (SetYLabel Ax1 (FluxLabel None)) st
              else st)))"

section \<open>Drawing the boxes (lines 557 to 1069)\<close>

text \<open>A Python \<open>for\<close> loop whose body may raise.\<close>

primrec for_each :: "('a \<Rightarrow> state \<Rightarrow> step) \<Rightarrow> 'a list \<Rightarrow> state \<Rightarrow> step" where
  "for_each body [] st = (None, st)"
| "for_each body (x # xs) st =
     (case body x st of
        (None, st1) \<Rightarrow> for_each body xs st1
      | (Some e, st1) \<Rightarrow> (Some e, st1))"

definition the_dict :: "pydict option \<Rightarrow> pydict" where
  "the_dict kw = (case kw of None \<Rightarrow> [] | Some d \<Rightarrow> d)"

text \<open>\<open>plot_kwargs[j][k] = v\<close>, where \<open>plot_kwargs[j]\<close> is a dictionary.\<close>

definition kw_set_key :: "nat \<Rightarrow> string \<Rightarrow> pyval \<Rightarrow> state \<Rightarrow> state" where
  "kw_set_key j k v st = kw_set j (dict_set k v (the_dict (plot_kwargs st ! j))) st"

text \<open>A draw call whose result is kept in \<open>plot_obj\<close>.\<close>

definition draw_obj :: "env \<Rightarrow> event \<Rightarrow> pydict \<Rightarrow> state \<Rightarrow> state" where
  "draw_obj E ev kws st =
     (emit ev st)\<lparr>plot_obj := Some (get_color E kws (length (events st)))\<rparr>"

subsection \<open>SpectrumBox and ModelBox (lines 563 to 635)\<close>

definition plot_single :: "string \<Rightarrow> real \<Rightarrow> nat \<Rightarrow> pyval \<Rightarrow> spectrum \<Rightarrow> state \<Rightarrow> step" where
  "plot_single quantity scaling j label spec st =
     (if spec = [] then (Some IndexError, st)
      else
        (let wavelength = map fst spec;
             masked = ma_array (map snd spec);
             y = ma_scale quantity scaling wavelength masked
         in case kw_get j st of
              Inl e \<Rightarrow> (Some e, st)
            | Inr kwj \<Rightarrow>
                if truthy kwj then
                  (let kwargs_copy = the_dict kwj;
                       label1 = (case map_of kwargs_copy ''label'' of
                                   Some v \<Rightarrow> v | None \<Rightarrow> label);
                       kwargs_copy1 = dict_del ''label'' kwargs_copy;
                       kwargs_copy2 = set_default ''zorder'' (VNum 2) kwargs_copy1
                   in if kw_clash [''label''] kwargs_copy2 then (Some TypeError, st)
                      else (None, emit (Plot Ax1 wavelength y
                                          ((''label'', label1) # kwargs_copy2)) st))
                else
                  (None, emit (Plot Ax1 wavelength y
                                 [(''lw'', VNum 0.5), (''label'', label), (''zorder'', VNum 2)]) st)))"

definition plot_named :: "string \<Rightarrow> real \<Rightarrow> string \<times> spectrum \<Rightarrow> state \<Rightarrow> step" where
  "plot_named quantity scaling item st =
     (let wavelength = map fst (snd item);
          masked = ma_array (map snd (snd item))
      in (None, emit (Plot Ax1 wavelength (ma_scale quantity scaling wavelength masked)
                        [(''lw'', VNum 0.5), (''label'', VStr (fst item))]) st))"

subsection \<open>A list of ModelBox objects (lines 637 to 722)\<close>

definition plot_sample :: "string \<Rightarrow> real \<Rightarrow> nat \<Rightarrow> spectrum \<Rightarrow> state \<Rightarrow> step" where
  "plot_sample quantity scaling j spec st =
     (let wavelength = map fst spec;
          masked = ma_array (map snd spec);
          y = ma_scale quantity scaling wavelength masked
      in case kw_get j st of
           Inl e \<Rightarrow> (Some e, st)
         | Inr kwj \<Rightarrow>
             if truthy kwj then
               (let d = set_default ''zorder'' (VNum 1) (the_dict kwj)
                in (None, emit (Plot Ax1 wavelength y d) (kw_set j d st)))
             else
               (None, emit (Plot Ax1 wavelength y
                              [(''color'', VStr ''gray''), (''lw'', VNum 0.2),
                               (''alpha'', VNum 0.5), (''zorder'', VNum 1)]) st))"

text \<open>
  NumPy broadcasting of a one-element array against an array of \<open>n\<close> elements.
\<close>

definition broadcast :: "nat \<Rightarrow> 'a list \<Rightarrow> 'a list" where
  "broadcast n xs = (case xs of [x] \<Rightarrow> replicate n x | _ \<Rightarrow> xs)"

text \<open>
  The envelope (lines 638 to 639, 654 to 655 and 677 to 722). \<open>spec_list\<close> has one row per
  spectrum, as long as the flux of the first one; \<open>spec_list[i] = flux\<close> takes a flux of
  that length or of length one and raises a ValueError otherwise. The percentiles are
  taken sample by sample; \<open>wavelength\<close> and \<open>flux_scaling\<close> are those of the last spectrum.
\<close>

definition plot_envelope ::
  "env \<Rightarrow> string \<Rightarrow> real \<Rightarrow> nat \<Rightarrow> spectrum list \<Rightarrow> state \<Rightarrow> step" where
  "plot_envelope E quantity scaling j specs st =
     (case specs of
        [] \<Rightarrow> (Some IndexError, st)
      | first # _ \<Rightarrow>
          if \<exists>s \<in> set specs. length s \<noteq> length first \<and> length s \<noteq> 1
          then (Some ShapeMismatch, st)
          else
            (let n = length first;
                 spec_list = map (\<lambda>s. broadcast n (map snd s)) specs;
                 wavelength = map fst (last specs);
                 weights = (if quantity = ''flux'' then broadcast n wavelength
                            else replicate n 1);
                 band = (\<lambda>q. map (\<lambda>k. div_fl (times_fl (weights ! k)
                                           (percentile E q (map (\<lambda>row. row ! k) spec_list)))
                                           scaling) [0..<n])
             in case kw_get j st of
                  Inl e \<Rightarrow> (Some e, st)
                | Inr kwj \<Rightarrow>
                    if truthy kwj then
                      (let d = dict_del ''alpha'' (set_default ''zorder'' (VNum 1) (the_dict kwj));
                           st1 = kw_set j d st
                       in if kw_clash [''x'', ''y1'', ''y2'', ''alpha''] d
                          then (Some TypeError, st1)
                          else (None,
                                emit (FillBetween Ax1 wavelength (band 16) (band 84)
                                        ((''alpha'', VNum 1) # d))
                                  (emit (FillBetween Ax1 wavelength (band 0.3) (band 99.7)
                                           ((''alpha'', VNum 0.4) # d)) st1)))
                    else
                      (None,
                       emit (FillBetween Ax1 wavelength (band 16) (band 84)
                               [(''color'', VStr ''peachpuff''), (''alpha'', VNum 1),
                                (''zorder'', VNum 1), (''linewidth'', VNum 0)])
                         (emit (FillBetween Ax1 wavelength (band 0.3) (band 99.7)
                                  [(''color'', VStr ''peachpuff''), (''alpha'', VNum 0.4),
                                   (''zorder'', VNum 1), (''linewidth'', VNum 0)]) st))))"

subsection \<open>PhotometryBox (lines 724 to 794)\<close>

primrec plot_photometry ::
  "env \<Rightarrow> string \<Rightarrow> real \<Rightarrow> nat \<Rightarrow> phot_point list \<Rightarrow> pyval list \<Rightarrow> state \<Rightarrow> step" where
  "plot_photometry E quantity scaling j [] label_check st = (None, st)"
| "plot_photometry E quantity scaling j (p # ps) label_check st =
     (let item = pt_wavelength p;
          fwhm = filter_fwhm E (pt_filter_name p);
          y = [Some (fl_scale quantity scaling item (pt_flux p))];
          yerr = map_option (\<lambda>e. [Some (fl_scale quantity scaling item e)]) (pt_flux_error p)
      in case kw_get j st of
           Inl e \<Rightarrow> (Some e, st)
         | Inr kwj \<Rightarrow>
             if truthy kwj then
               (let d = the_dict kwj;
                    seen = (case map_of d ''label'' of
                              None \<Rightarrow> False | Some l \<Rightarrow> l \<in> set label_check);
                    label_check1 = (case map_of d ''label'' of
                                      None \<Rightarrow> label_check
                                    | Some l \<Rightarrow> if seen then label_check else label_check @ [l]);
                    d1 = (if seen then dict_del ''label'' d else d);
                    d2 = set_default ''zorder'' (VNum 3) d1;
                    st1 = kw_set j d2 st
                in if kw_clash [''xerr'', ''yerr''] d2 then (Some TypeError, st1)
                   else plot_photometry E quantity scaling j ps label_check1
                          (emit (ErrorBar Ax1 [item] y yerr
                                   ((''xerr'', VNum (fwhm / 2)) # d2)) st1))
             else
               plot_photometry E quantity scaling j ps label_check
                 (emit (ErrorBar Ax1 [item] y yerr
                          [(''xerr'', VNum (fwhm / 2)), (''marker'', VStr ''s''),
                           (''ms'', VNum 6), (''color'', VStr ''black''),
                           (''zorder'', VNum 3)]) st))"

subsection \<open>ObjectBox (lines 796 to 979)\<close>

definition then_do :: "step \<Rightarrow> (state \<Rightarrow> step) \<Rightarrow> step" where
  "then_do r f = (case r of (None, st) \<Rightarrow> f st | (Some e, st) \<Rightarrow> (Some e, st))"

definition plot_object_spectrum ::
  "env \<Rightarrow> string \<Rightarrow> real \<Rightarrow> nat \<Rightarrow> string \<times> (real \<times> fl \<times> fl) list \<Rightarrow> state \<Rightarrow> step" where
  "plot_object_spectrum E quantity scaling j item st =
     (let key = fst item;
          x = map fst (snd item);
          y = ma_scale quantity scaling x (ma_array (map (\<lambda>r. fst (snd r)) (snd item)));
          yerr = ma_scale quantity scaling x (ma_array (map (\<lambda>r. snd (snd r)) (snd item)));
          kws = [(''ms'', VNum 2), (''marker'', VStr ''s''), (''zorder'', VNum 2.5),
                 (''ls'', VStr ''none'')];
          default =
            (None,
             kw_set_key j key
               (VDict [(''marker'', VStr ''s''), (''ms'', VNum 2), (''ls'', VStr ''none''),
                       (''color'', get_color E kws (length (events st)))])
               (draw_obj E (ErrorBar Ax1 x y (Some yerr) kws) kws st))
      in case kw_get j st of
           Inl e \<Rightarrow> (Some e, st)
         | Inr kwj \<Rightarrow>
             if \<not> truthy kwj then default
             else
               (case map_of (the_dict kwj) key of
                  None \<Rightarrow> default
                | Some v \<Rightarrow>
                    (case as_dict v of
                       Inl e \<Rightarrow> (Some e, st)
                     | Inr sty \<Rightarrow>
                         if \<not> has_key ''marker'' sty
                         then (None, draw_obj E (Plot Ax1 x y sty) sty st)
                         else
                           (let sty1 = set_default ''zorder'' (VNum 2.5) sty;
                                st1 = kw_set_key j key (VDict sty1) st
                            in if kw_clash [''yerr''] sty1 then (Some TypeError, st1)
                               else (None, emit (ErrorBar Ax1 x y (Some yerr) sty1) st1)))))"

text \<open>One of the repeated measurements of a filter that has a style list (lines 934 to 946).\<close>

definition plot_measurement ::
  "string \<Rightarrow> real \<Rightarrow> nat \<Rightarrow> string \<Rightarrow> real \<Rightarrow> real \<Rightarrow> nat \<times> fl \<times> fl \<Rightarrow> state \<Rightarrow> step" where
  "plot_measurement quantity scaling j item wavelength fwhm m st =
     (case kw_get j st of
        Inl e \<Rightarrow> (Some e, st)
      | Inr kwj \<Rightarrow>
          (case map_of (the_dict kwj) item of
             Some (VList l) \<Rightarrow>
               if fst m < length l then
                 (case as_dict (l ! fst m) of
                    Inl e \<Rightarrow> (Some e, st)
                  | Inr sty \<Rightarrow>
                      (let sty1 = set_default ''zorder'' (VNum 3) sty;
                           st1 = kw_set_key j item (VList (l[fst m := VDict sty1])) st
                       in if kw_clash [''xerr'', ''yerr''] sty1 then (Some TypeError, st1)
                          else (None,
                                emit (ErrorBar Ax1 [wavelength]
                                        [Some (fl_scale quantity scaling wavelength (fst (snd m)))]
                                        (Some [Some (fl_scale quantity scaling wavelength
                                                       (snd (snd m)))])
                                        ((''xerr'', VNum (fwhm / 2)) # sty1)) st1)))
               else (Some IndexError, st)
           | Some _ \<Rightarrow> (Some TypeError, st)
           | None \<Rightarrow> (Some KeyError, st)))"

text \<open>The default draw call of one measurement (lines 892 to 913), kept in \<open>plot_obj\<close>.\<close>

definition plot_flux_point :: "env \<Rightarrow> real \<Rightarrow> real \<Rightarrow> real \<Rightarrow> fl \<times> fl \<Rightarrow> state \<Rightarrow> state" where
  "plot_flux_point E wavelength fwhm scale_tmp m st =
     (let kws = [(''xerr'', VNum (fwhm / 2)), (''marker'', VStr ''s''), (''ms'', VNum 5),
                 (''zorder'', VNum 3), (''color'', VStr ''black'')]
      in draw_obj E
           (ErrorBar Ax1 [wavelength] [Some (times_fl scale_tmp (fst m))]
              (Some [Some (times_fl scale_tmp (snd m))]) kws) kws st)"

text \<open>A filter with no style (lines 885 to 919): the default style is drawn and recorded.\<close>

definition plot_flux_default ::
  "env \<Rightarrow> string \<Rightarrow> real \<Rightarrow> nat \<Rightarrow> string \<times> object_flux \<Rightarrow> state \<Rightarrow> step" where
  "plot_flux_default E quantity scaling j entry st =
     (let item = fst entry;
          wavelength = mean_wavelength E item;
          fwhm = filter_fwhm E item;
          scale_tmp = flux_scaling quantity wavelength / scaling;
          st1 = (case snd entry of
                   MultiFlux ms \<Rightarrow> fold (plot_flux_point E wavelength fwhm scale_tmp) ms st
                 | SingleFlux f e \<Rightarrow> plot_flux_point E wavelength fwhm scale_tmp (f, e) st)
      in case plot_obj st1 of
           None \<Rightarrow> (Some UnboundLocalError, st1)
         | Some c \<Rightarrow>
             (None, kw_set_key j item
                      (VDict [(''marker'', VStr ''s''), (''ms'', VNum 5), (''color'', c)]) st1))"

text \<open>
  A single measurement with a style (lines 949 to 979): an error of exactly zero is drawn
  as an upper limit.
\<close>

definition plot_flux_styled ::
  "string \<Rightarrow> real \<Rightarrow> nat \<Rightarrow> string \<Rightarrow> real \<Rightarrow> real \<Rightarrow> pydict \<Rightarrow> fl \<Rightarrow> fl \<Rightarrow> state \<Rightarrow> step" where
  "plot_flux_styled quantity scaling j item wavelength fwhm sty f e st =
     (let sty1 = set_default ''zorder'' (VNum 3) sty;
          st1 = kw_set_key j item (VDict sty1) st;
          y = [Some (fl_scale quantity scaling wavelength f)]
      in if e = Fin 0 then
           (if kw_clash [''xerr'', ''yerr'', ''uplims'', ''capsize'', ''capthick''] sty1
            then (Some TypeError, st1)
            else (None,
                  emit (ErrorBar Ax1 [wavelength] y
                          (Some [Some (div_fl (times_fl
                             (0.5 * flux_scaling quantity wavelength) f) scaling)])
                          ([(''xerr'', VNum (fwhm / 2)), (''uplims'', VBool True),
                            (''capsize'', VNum 2), (''capthick'', VNum 0)] @ sty1)) st1))
         else
           (if kw_clash [''xerr'', ''yerr''] sty1 then (Some TypeError, st1)
            else (None,
                  emit (ErrorBar Ax1 [wavelength] y
                          (Some [Some (fl_scale quantity scaling wavelength e)])
                          ((''xerr'', VNum (fwhm / 2)) # sty1)) st1)))"

definition plot_object_flux ::
  "env \<Rightarrow> string \<Rightarrow> real \<Rightarrow> nat \<Rightarrow> string \<times> object_flux \<Rightarrow> state \<Rightarrow> step" where
  "plot_object_flux E quantity scaling j entry st =
     (let item = fst entry;
          wavelength = mean_wavelength E item;
          fwhm = filter_fwhm E item
      in case kw_get j st of
           Inl e \<Rightarrow> (Some e, st)
         | Inr kwj \<Rightarrow>
             if \<not> truthy kwj then plot_flux_default E quantity scaling j entry (kw_set j [] st)
             else
               (case map_of (the_dict kwj) item of
                  None \<Rightarrow> plot_flux_default E quantity scaling j entry st
                | Some v \<Rightarrow>
                    (case snd entry of
                       MultiFlux ms \<Rightarrow>
                         (case v of
                            VList l \<Rightarrow>
                              for_each (plot_measurement quantity scaling j item wavelength fwhm)
                                (zip [0..<length ms] ms) st
                          | _ \<Rightarrow> (Some ListRequired, st))
                     | SingleFlux f e \<Rightarrow>
                         (case as_dict v of
                            Inl err \<Rightarrow> (Some err, st)
                          | Inr sty \<Rightarrow>
                              plot_flux_styled quantity scaling j item wavelength fwhm sty f e
                                st))))"

definition first_wavelength :: "(real \<times> fl \<times> fl) list \<Rightarrow> real" where
  "first_wavelength rows = (case rows of [] \<Rightarrow> 0 | r # _ \<Rightarrow> fst r)"

text \<open>
  The spectra are drawn in the order of their first wavelength and the filters in the
  order of their mean wavelength (\<open>np.argsort\<close>, equal keys in their original order).
  The first wavelength of an empty spectrum is an IndexError.
\<close>

definition plot_object ::
  "env \<Rightarrow> string \<Rightarrow> real \<Rightarrow> nat
     \<Rightarrow> (string \<times> (real \<times> fl \<times> fl) list) list option
     \<Rightarrow> (string \<times> object_flux) list option \<Rightarrow> state \<Rightarrow> step" where
  "plot_object E quantity scaling j spectrum fluxes st =
     then_do
       (case spectrum of
          None \<Rightarrow> (None, st)
        | Some specs \<Rightarrow>
            if \<exists>item \<in> set specs. snd item = [] then (Some IndexError, st)
            else for_each (plot_object_spectrum E quantity scaling j)
                   (sort_key (\<lambda>item. first_wavelength (snd item)) specs) st)
       (\<lambda>st1. case fluxes of
                None \<Rightarrow> (None, st1)
              | Some fl \<Rightarrow>
                  for_each (plot_object_flux E quantity scaling j)
                    (sort_key (\<lambda>entry. mean_wavelength E (fst entry)) fl) st1)"

subsection \<open>SynphotBox (lines 981 to 1069)\<close>

fun is_object_box :: "box \<Rightarrow> bool" where
  "is_object_box (ObjectBox _ _) = True"
| "is_object_box _ = False"

text \<open>The index of the first ObjectBox of \<open>boxes\<close>.\<close>

primrec find_object :: "box list \<Rightarrow> nat option" where
  "find_object [] = None"
| "find_object (b # bs) = (if is_object_box b then Some 0 else map_option Suc (find_object bs))"

definition plot_synphot ::
  "env \<Rightarrow> string \<Rightarrow> real \<Rightarrow> nat \<Rightarrow> nat option \<Rightarrow> string \<times> fl \<Rightarrow> state \<Rightarrow> step" where
  "plot_synphot E quantity scaling j obj_index entry st =
     (let item = fst entry;
          wavelength = mean_wavelength E item;
          fwhm = filter_fwhm E item;
          y = [Some (fl_scale quantity scaling wavelength (snd entry))];
          default =
            (None,
             emit (ErrorBar Ax1 [wavelength] y None
                     [(''xerr'', VNum (fwhm / 2)), (''alpha'', VNum 0.7),
                      (''marker'', VStr ''s''), (''ms'', VNum 5), (''zorder'', VNum 4),
                      (''mfc'', VStr ''white'')]) st);
          borrowed = (\<lambda>kwargs_copy.
            if kw_clash [''xerr'', ''yerr'', ''mfc''] kwargs_copy then (Some TypeError, st)
            else (None,
                  emit (ErrorBar Ax1 [wavelength] y None
                          ([(''xerr'', VNum (fwhm / 2)), (''mfc'', VStr ''white'')]
                           @ kwargs_copy)) st))
      in case kw_get j st of
           Inl e \<Rightarrow> (Some e, st)
         | Inr kwj \<Rightarrow>
             (case (case kwj of None \<Rightarrow> None | Some d \<Rightarrow> map_of d item) of
                Some v \<Rightarrow>
                  (case copy_dict v of
                     Inl e \<Rightarrow> (Some e, st)
                   | Inr kwargs_copy \<Rightarrow>
                       (let kwargs_copy1 = set_default ''zorder'' (VNum 4) kwargs_copy
                        in if kw_clash [''xerr'', ''yerr''] kwargs_copy1 then (Some TypeError, st)
                           else (None,
                                 emit (ErrorBar Ax1 [wavelength] y None
                                         ((''xerr'', VNum (fwhm / 2)) # kwargs_copy1)) st)))
              | None \<Rightarrow>
                  (case obj_index of
                     None \<Rightarrow> default
                   | Some oi \<Rightarrow>
                       (case kw_get oi st of
                          Inl e \<Rightarrow> (Some e, st)
                        | Inr kwo \<Rightarrow>
                            if \<not> truthy kwo then default
                            else
                              (case map_of (the_dict kwo) item of
                                 None \<Rightarrow> default
                               | Some (VList l) \<Rightarrow>
                                   (case l of
                                      [] \<Rightarrow> (Some IndexError, st)
                                    | v0 # _ \<Rightarrow>
                                        (case copy_dict v0 of
                                           Inl e \<Rightarrow> (Some e, st)
                                         | Inr kwargs_copy \<Rightarrow>
                                             borrowed (set_default ''zorder'' (VNum 4)
                                                         (dict_del ''label'' kwargs_copy))))
                               | Some v \<Rightarrow>
                                   (case copy_dict v of
                                      Inl e \<Rightarrow> (Some e, st)
                                    | Inr kwargs_copy \<Rightarrow>
                                        borrowed (set_default ''zorder'' (VNum 4)
                                                    (dict_del ''mfc''
                                                       (dict_del ''label'' kwargs_copy)))))))))"

subsection \<open>The loop over the boxes\<close>

fun draw_box ::
  "env \<Rightarrow> string \<Rightarrow> real \<Rightarrow> bool \<Rightarrow> box list \<Rightarrow> nat \<Rightarrow> box \<Rightarrow> state \<Rightarrow> step" where
  "draw_box E quantity scaling envelope boxes j (SpectrumBox spec) st =
     plot_single quantity scaling j VNone spec st"
| "draw_box E quantity scaling envelope boxes j (ModelBox model param spec) st =
     plot_single quantity scaling j (create_model_label E model param) spec st"
| "draw_box E quantity scaling envelope boxes j (SpectrumBoxOther spec) st =
     (if spec = [] then (Some IndexError, st) else (None, st))"
| "draw_box E quantity scaling envelope boxes j (ModelBoxOther model param spec) st =
     (if spec = [] then (Some IndexError, st) else (None, st))"
| "draw_box E quantity scaling envelope boxes j (SpectrumBoxes specs) st =
     (if specs = [] then (Some IndexError, st)
      else for_each (plot_named quantity scaling) specs st)"
| "draw_box E quantity scaling envelope boxes j (BoxList specs) st =
     (if envelope then plot_envelope E quantity scaling j specs st
      else for_each (plot_sample quantity scaling j) specs st)"
| "draw_box E quantity scaling envelope boxes j (PhotometryBox points) st =
     plot_photometry E quantity scaling j points [] st"
| "draw_box E quantity scaling envelope boxes j (ObjectBox spectrum fluxes) st =
     plot_object E quantity scaling j spectrum fluxes st"
| "draw_box E quantity scaling envelope boxes j (SynphotBox fluxes) st =
     for_each (plot_synphot E quantity scaling j (find_object boxes)) fluxes st"
| "draw_box E quantity scaling envelope boxes j OtherBox st = (None, st)"

text \<open>
  \<open>for j, box_item in enumerate(boxes)\<close>: each round first appends \<open>None\<close> to
  \<open>plot_kwargs\<close> (line 560: \<open>if j < len(boxes)\<close>).
\<close>

primrec main_loop ::
  "env \<Rightarrow> string \<Rightarrow> real \<Rightarrow> bool \<Rightarrow> box list \<Rightarrow> nat \<Rightarrow> box list \<Rightarrow> state \<Rightarrow> step" where
  "main_loop E quantity scaling envelope boxes j [] st = (None, st)"
| "main_loop E quantity scaling envelope boxes j (box_item # rest) st =
     then_do
       (draw_box E quantity scaling envelope boxes j box_item
          (if j < length boxes then st\<lparr>plot_kwargs := plot_kwargs st @ [None]\<rparr> else st))
       (main_loop E quantity scaling envelope boxes (Suc j) rest)"

section \<open>The filter profiles and the residuals (lines 1071 to 1186)\<close>

definition plot_filter :: "env \<Rightarrow> string \<Rightarrow> state \<Rightarrow> state" where
  "plot_filter E item st =
     (let data = get_filter E item
      in emit (Plot Ax2 (map fst data) (map (\<lambda>r. Some (Fin (snd r))) data)
                 [(''fmt'', VStr ''-''), (''lw'', VNum 0.7), (''color'', VStr ''tab:gray''),
                  (''zorder'', VNum 1)]) st)"

fun fin_values :: "fl list \<Rightarrow> real list" where
  "fin_values [] = []"
| "fin_values (Fin a # xs) = a # fin_values xs"
| "fin_values (_ # xs) = fin_values xs"

text \<open>\<open>np.max(np.abs(r[np.isfinite(r)]))\<close>\<close>

definition max_abs_finite :: "fl list \<Rightarrow> error + fl" where
  "max_abs_finite r =
     (case fin_values r of
        [] \<Rightarrow> Inl EmptyReduction
      | a # as \<Rightarrow> Inr (Fin (fold (\<lambda>x m. max \<bar>x\<bar> m) as \<bar>a\<bar>)))"

text \<open>\<open>np.nanmax(np.abs(r))\<close>: NaN is skipped, an infinity is not.\<close>

definition nanmax_abs :: "fl list \<Rightarrow> error + fl" where
  "nanmax_abs r =
     (if r = [] then Inl EmptyReduction
      else if \<forall>x \<in> set r. isnan x then Inr NaN
      else if \<exists>x \<in> set r. x = PInf \<or> x = NInf then Inr PInf
      else max_abs_finite r)"

definition res_values :: "residual_phot \<Rightarrow> (real \<times> fl) list" where
  "res_values r = (case r of Res1 x v \<Rightarrow> [(x, v)] | Res2 l \<Rightarrow> l)"

text \<open>One column of a 2-D photometric residual (lines 1119 to 1138).\<close>

definition plot_res_measurement :: "nat \<Rightarrow> string \<Rightarrow> nat \<times> real \<times> fl \<Rightarrow> state \<Rightarrow> step" where
  "plot_res_measurement obj_index item m st =
     (case kw_get obj_index st of
        Inl e \<Rightarrow> (Some e, st)
      | Inr kwo \<Rightarrow>
          (case map_of (the_dict kwo) item of
             None \<Rightarrow> (Some KeyError, st)
           | Some (VList l) \<Rightarrow>
               if fst m < length l then
                 (case as_dict (l ! fst m) of
                    Inl e \<Rightarrow> (Some e, st)
                  | Inr sty \<Rightarrow>
                      (let sty1 = set_default ''zorder'' (VNum 2) sty
                       in (None,
                           emit (ErrorBar Ax3 [fst (snd m)] [Some (snd (snd m))] None sty1)
                             (kw_set_key obj_index item (VList (l[fst m := VDict sty1])) st))))
               else (Some IndexError, st)
           | Some v \<Rightarrow>
               (case as_dict v of
                  Inl e \<Rightarrow> (Some e, st)
                | Inr sty \<Rightarrow>
                    (let sty1 = set_default ''zorder'' (VNum 2) sty
                     in (None,
                         emit (ErrorBar Ax3 [fst (snd m)] [Some (snd (snd m))] None sty1)
                           (kw_set_key obj_index item (VDict sty1) st))))))"

definition plot_res_photometry :: "nat \<Rightarrow> string \<times> residual_phot \<Rightarrow> state \<Rightarrow> step" where
  "plot_res_photometry obj_index entry st =
     (let item = fst entry;
          default =
            (None,
             emit (Plot Ax3 (map fst (res_values (snd entry)))
                     (map (\<lambda>r. Some (snd r)) (res_values (snd entry)))
                     [(''marker'', VStr ''s''), (''ms'', VNum 5), (''linestyle'', VStr ''none''),
                      (''zorder'', VNum 2)]) st)
      in case kw_get obj_index st of
           Inl e \<Rightarrow> (Some e, st)
         | Inr kwo \<Rightarrow>
             if \<not> truthy kwo then default
             else
               (case map_of (the_dict kwo) item of
                  None \<Rightarrow> default
                | Some v \<Rightarrow>
                    (case snd entry of
                       Res1 x r \<Rightarrow>
                         (case as_dict v of
                            Inl e \<Rightarrow> (Some e, st)
                          | Inr sty \<Rightarrow>
                              (let sty1 = set_default ''zorder'' (VNum 2) sty
                               in (None,
                                   emit (ErrorBar Ax3 [x] [Some r] None sty1)
                                     (kw_set_key obj_index item (VDict sty1) st))))
                     | Res2 ms \<Rightarrow>
                         for_each (plot_res_measurement obj_index item)
                           (zip [0..<length ms] ms) st)))"

definition plot_res_spectrum :: "nat \<Rightarrow> string \<times> (real \<times> fl) list \<Rightarrow> state \<Rightarrow> step" where
  "plot_res_spectrum obj_index entry st =
     (let key = fst entry;
          x = map fst (snd entry);
          y = map (\<lambda>r. Some (snd r)) (snd entry);
          default =
            (None,
             emit (ErrorBar Ax3 x y None
                     [(''marker'', VStr ''o''), (''ms'', VNum 2), (''ls'', VStr ''none''),
                      (''zorder'', VNum 1)]) st)
      in case kw_get obj_index st of
           Inl e \<Rightarrow> (Some e, st)
         | Inr kwo \<Rightarrow>
             if \<not> truthy kwo then default
             else
               (case map_of (the_dict kwo) key of
                  None \<Rightarrow> default
                | Some v \<Rightarrow>
                    (case as_dict v of
                       Inl e \<Rightarrow> (Some e, st)
                     | Inr sty \<Rightarrow>
                         (let sty1 = set_default ''zorder'' (VNum 1) sty
                          in (None,
                              emit (ErrorBar Ax3 x y None sty1)
                                (kw_set_key obj_index key (VDict sty1) st))))))"

text \<open>The two loops that draw the residuals and keep the largest one in \<open>res_max\<close>.\<close>

primrec residuals_photometry ::
  "nat \<Rightarrow> (string \<times> residual_phot) list \<Rightarrow> fl \<Rightarrow> state \<Rightarrow> (error + fl) \<times> state" where
  "residuals_photometry obj_index [] res_max st = (Inr res_max, st)"
| "residuals_photometry obj_index (entry # rest) res_max st =
     (case plot_res_photometry obj_index entry st of
        (Some e, st1) \<Rightarrow> (Inl e, st1)
      | (None, st1) \<Rightarrow>
          (case max_abs_finite (map snd (res_values (snd entry))) of
             Inl e \<Rightarrow> (Inl e, st1)
           | Inr max_tmp \<Rightarrow>
               residuals_photometry obj_index rest
                 (if fl_gt max_tmp res_max then max_tmp else res_max) st1))"

primrec residuals_spectrum ::
  "nat \<Rightarrow> (string \<times> (real \<times> fl) list) list \<Rightarrow> fl \<Rightarrow> state \<Rightarrow> (error + fl) \<times> state" where
  "residuals_spectrum obj_index [] res_max st = (Inr res_max, st)"
| "residuals_spectrum obj_index (entry # rest) res_max st =
     (case plot_res_spectrum obj_index entry st of
        (Some e, st1) \<Rightarrow> (Inl e, st1)
      | (None, st1) \<Rightarrow>
          (case nanmax_abs (map (\<lambda>r. fl_abs (snd r)) (snd entry)) of
             Inl e \<Rightarrow> (Inl e, st1)
           | Inr max_tmp \<Rightarrow>
               residuals_spectrum obj_index rest
                 (if fl_gt max_tmp res_max then max_tmp else res_max) st1))"

text \<open>
  \<open>res_lim = math.ceil(1.1 * res_max)\<close>, and \<open>if res_lim > 10.0: res_lim = 5.0\<close>
  (lines 1169 to 1172). The argument is the product \<open>1.1 * res_max\<close>, which is a float:
  \<open>math.ceil\<close> raises an OverflowError at an infinity and a ValueError at NaN.
\<close>

definition res_lim :: "real \<Rightarrow> real" where
  "res_lim p = (if real_of_int \<lceil>p\<rceil> > 10 then 5 else real_of_int \<lceil>p\<rceil>)"

definition dashed :: pydict where
  "dashed = [(''ls'', VStr ''--''), (''lw'', VNum 0.7), (''color'', VStr ''gray''),
             (''dashes'', VList [VNum 2, VNum 4]), (''zorder'', VNum 0.5)]"

definition dotted :: pydict where
  "dotted = [(''ls'', VStr '':''), (''lw'', VNum 0.7), (''color'', VStr ''gray''),
             (''dashes'', VList [VNum 1, VNum 4]), (''zorder'', VNum 0.5)]"

definition residual_axis :: "fl \<Rightarrow> (real \<times> real) option \<Rightarrow> state \<Rightarrow> step" where
  "residual_axis res_max ylim_res st =
     (case times_fl 1.1 res_max of
        Fin p \<Rightarrow>
          (let st1 = emit (AxHLine Ax3 0 dashed) st;
               st2 = (if res_lim p > 5
                         \<or> (case ylim_res of None \<Rightarrow> False | Some (lo, hi) \<Rightarrow> lo < - 5 \<and> hi > 5)
                      then emit (AxHLine Ax3 5 dotted) (emit (AxHLine Ax3 (- 5) dotted) st1)
                      else st1)
           in (None,
               case ylim_res of
                 None \<Rightarrow> emit (SetYLim Ax3 (- res_lim p) (res_lim p)) st2
               | Some (lo, hi) \<Rightarrow> emit (SetYLim Ax3 lo hi) st2))
      | NaN \<Rightarrow> (Some CeilNaN, st)
      | _ \<Rightarrow> (Some OverflowError, st))"

definition plot_residuals ::
  "box list \<Rightarrow> residuals_box \<Rightarrow> (real \<times> real) option \<Rightarrow> state \<Rightarrow> step" where
  "plot_residuals boxes residuals ylim_res st =
     (case find_object boxes of
        None \<Rightarrow> (Some ObjectBoxNotFound, st)
      | Some obj_index \<Rightarrow>
          (case (case res_photometry residuals of
                   None \<Rightarrow> (Inr (Fin 0), st)
                 | Some ph \<Rightarrow> residuals_photometry obj_index ph (Fin 0) st) of
             (Inl e, st1) \<Rightarrow> (Some e, st1)
           | (Inr res_max1, st1) \<Rightarrow>
               (case (case res_spectrum residuals of
                        None \<Rightarrow> (Inr res_max1, st1)
                      | Some sp \<Rightarrow> residuals_spectrum obj_index sp res_max1 st1) of
                  (Inl e, st2) \<Rightarrow> (Some e, st2)
                | (Inr res_max, st2) \<Rightarrow> residual_axis res_max ylim_res st2)))"

section \<open>The whole call\<close>

text \<open>
  The result is the exception raised, if any, and the state at that moment or at the end
  of the residual panel: the calls made on the plotting library so far, and the list
  \<open>plot_kwargs\<close>, which is the caller's own list when the caller gave one.

  The call starts by printing the boxes (lines 183 to 189): the class name of \<open>item[0]\<close>
  for an item that is a list, which is an IndexError for an empty list. The
  model leaves out what is printed, the global style settings, the completion of
  \<open>param_fmt\<close>, the tick and axis-label styling, the axis scales, the x-limits, the title,
  the legend and the output (lines 191 to 201, 212 to 255, 293 to 452, 521 to 551 and
  1188 to 1326), which draw no data.
\<close>

definition initial_state :: "pydict option list option \<Rightarrow> state" where
  "initial_state kwargs =
     \<lparr>events = [], plot_kwargs = (case kwargs of None \<Rightarrow> [] | Some kw \<Rightarrow> kw), plot_obj = None\<rparr>"

text \<open>
  Everything before the residual panel: the printing of the boxes, the check of
  \<open>plot_kwargs\<close>, the figure, the scale of the main panel, the boxes and the filter
  profiles. \<open>with_residuals\<close> is \<open>residuals is not None\<close>.
\<close>

text \<open>The height ratios of the grid (lines 257 to 291).\<close>

definition figure_layout :: "bool \<Rightarrow> string list option \<Rightarrow> nat list" where
  "figure_layout with_residuals filters =
     (if with_residuals \<and> filters \<noteq> None then [1, 3, 1]
      else if with_residuals then [4, 1]
      else if filters \<noteq> None then [1, 4]
      else [1])"

text \<open>The filter profiles (lines 1071 to 1076).\<close>

definition plot_filters :: "env \<Rightarrow> string list option \<Rightarrow> state \<Rightarrow> state" where
  "plot_filters E filters st =
     (case filters of None \<Rightarrow> st | Some fs \<Rightarrow> fold (plot_filter E) fs st)"

definition draw_panels ::
  "env \<Rightarrow> box list \<Rightarrow> string list option \<Rightarrow> bool
     \<Rightarrow> pydict option list option \<Rightarrow> bool \<Rightarrow> (real \<times> real) option
     \<Rightarrow> (string \<times> string) option \<Rightarrow> string \<Rightarrow> step" where
  "draw_panels E boxes filters with_residuals kwargs envelope ylim scale quantity =
     (if BoxList [] \<in> set boxes then (Some IndexError, initial_state kwargs)
      else if (case kwargs of None \<Rightarrow> False | Some kw \<Rightarrow> length boxes \<noteq> length kw)
      then (Some LengthMismatch, initial_state kwargs)
      else
        (let st1 = emit (Figure (figure_layout with_residuals filters)) (initial_state kwargs);
             yscale = (case scale of None \<Rightarrow> ''linear'' | Some s \<Rightarrow> snd s)
         in case set_scaling E quantity ylim yscale st1 of
              (Inl e, st2) \<Rightarrow> (Some e, st2)
            | (Inr scaling, st2) \<Rightarrow>
                then_do (main_loop E quantity scaling envelope boxes 0 boxes st2)
                  (\<lambda>st3. (None, plot_filters E filters st3))))"

definition plot_spectrum ::
  "env \<Rightarrow> box list \<Rightarrow> string list option \<Rightarrow> residuals_box option
     \<Rightarrow> pydict option list option \<Rightarrow> bool \<Rightarrow> (real \<times> real) option \<Rightarrow> (real \<times> real) option
     \<Rightarrow> (string \<times> string) option \<Rightarrow> string \<Rightarrow> step" where
  "plot_spectrum E boxes filters residuals kwargs envelope ylim ylim_res scale quantity =
     then_do
       (draw_panels E boxes filters (residuals \<noteq> None) kwargs envelope ylim scale quantity)
       (\<lambda>st. case residuals of
               None \<Rightarrow> (None, st)
             | Some r \<Rightarrow> plot_residuals boxes r ylim_res st)"

text \<open>
  Collaborators for the concrete examples; this \<open>get_ylim\<close> returns the limits as set.
\<close>

definition E0 :: env where
  "E0 = \<lparr>mean_wavelength = (\<lambda>f. 2), filter_fwhm = (\<lambda>f. 1), get_filter = (\<lambda>f. []),
         create_model_label = (\<lambda>model param. VStr model), percentile = (\<lambda>q column. NaN),
         get_color = (\<lambda>kws n. VStr ''C0''), get_ylim = (\<lambda>yscale l. l)\<rparr>"

section \<open>The claims' own notions\<close>

text \<open>
  The element of the drawn line that a sample \<open>(wavelength, flux)\<close> of a spectrum is
  said to give: a gap when the flux is not finite; otherwise the flux times the wavelength
  weighting over the scaling, unless the weighted flux is beyond the float range or
  outside the domain of the masked division, which is a gap too.
\<close>

definition gap_or_value :: "string \<Rightarrow> real \<Rightarrow> real \<times> fl \<Rightarrow> fl option" where
  "gap_or_value quantity scaling s =
     (case snd s of
        Fin a \<Rightarrow>
          (if \<bar>flux_scaling quantity (fst s) * a\<bar> \<le> fmax
              \<and> \<bar>flux_scaling quantity (fst s) * a\<bar> * tiny < \<bar>scaling\<bar>
           then Some (Fin (flux_scaling quantity (fst s) * a / scaling))
           else None)
      | _ \<Rightarrow> None)"


text \<open>
  A step that assigns to no entry of \<open>plot_kwargs\<close> other than entry \<open>j\<close>, and leaves the
  length of the list as it is.
\<close>

definition writes_only :: "nat \<Rightarrow> state \<Rightarrow> state \<Rightarrow> bool" where
  "writes_only j st st' \<longleftrightarrow>
     length (plot_kwargs st') = length (plot_kwargs st)
     \<and> (\<forall>i. i \<noteq> j \<longrightarrow> plot_kwargs st' ! i = plot_kwargs st ! i)"

(*DEFS-END*)

section \<open>Properties\<close>

text \<open>Values far from the limits of the float range are kept as they are.\<close>

lemma fmax_big: "1000000 \<le> fmax"
  by (simp add: fmax_def)

lemma tiny_small: "tiny \<le> 1 / 10000000000000"
  by (simp add: tiny_def)

lemma tiny_pos: "0 < tiny"
  by (simp add: tiny_def)

lemma fmax_tiny: "1 \<le> fmax * tiny"
  by (simp add: fmax_def tiny_def)

lemma fl_of_small: "\<bar>r\<bar> \<le> 1000000 \<Longrightarrow> fl_of r = Fin r"
  using fmax_big by (auto simp: fl_of_def)

lemma inside_domain_small:
  assumes "\<bar>a\<bar> \<le> 1000000" and "1 / 1000000 \<le> \<bar>s\<bar>"
  shows "\<not> outside_domain (Fin a) s"
proof -
  have "\<bar>a\<bar> * tiny \<le> 1000000 * (1 / 10000000000000)"
    using assms(1) tiny_small tiny_pos by (intro mult_mono) auto
  then have "\<bar>a\<bar> * tiny < \<bar>s\<bar>" using assms(2) by simp
  then show ?thesis by (simp add: outside_domain_def)
qed

lemma outside_domain_nonfinite [simp]:
  "outside_domain PInf s" "outside_domain NInf s" "\<not> outside_domain NaN s"
  by (simp_all add: outside_domain_def)

lemma fl_of_Fin: "\<bar>r\<bar> \<le> fmax \<Longrightarrow> fl_of r = Fin r"
  by (auto simp: fl_of_def)

lemma fl_of_infinite: "\<not> \<bar>r\<bar> \<le> fmax \<Longrightarrow> \<not> isfinite (fl_of r)"
  by (auto simp: fl_of_def)

lemma quotient_in_range:
  assumes "\<bar>v\<bar> * tiny < \<bar>s\<bar>"
  shows "\<bar>v / s\<bar> \<le> fmax"
proof -
  have s: "0 < \<bar>s\<bar>" using assms tiny_pos
    by (metis abs_ge_zero less_le_trans mult_nonneg_nonneg less_imp_le order.strict_trans1)
  have "\<bar>v\<bar> * tiny \<le> \<bar>s\<bar> * (fmax * tiny)"
  proof -
    have "\<bar>s\<bar> * 1 \<le> \<bar>s\<bar> * (fmax * tiny)" using fmax_tiny s by (intro mult_left_mono) auto
    then show ?thesis using assms by simp
  qed
  then have "\<bar>v\<bar> \<le> \<bar>s\<bar> * fmax" using tiny_pos by (simp add: mult.assoc [symmetric])
  then have "\<bar>v\<bar> / \<bar>s\<bar> \<le> fmax" using s by (simp add: pos_divide_le_eq mult.commute)
  then show ?thesis by simp
qed

lemma ma_scale_elem:
  "ma_div (ma_mul (flux_scaling quantity w) (if isnan x then None else Some x)) scaling =
   gap_or_value quantity scaling (w, x)"
proof (cases x)
  case (Fin a)
  show ?thesis
  proof (cases "\<bar>flux_scaling quantity w * a\<bar> \<le> fmax")
    case True
    note t = True
    show ?thesis
    proof (cases "\<bar>flux_scaling quantity w * a\<bar> * tiny < \<bar>scaling\<bar>")
      case True
      then have s0: "scaling \<noteq> 0" using tiny_pos
        by (metis abs_zero abs_ge_zero mult_nonneg_nonneg less_imp_le not_less)
      from True have "\<bar>flux_scaling quantity w * a / scaling\<bar> \<le> fmax"
        by (rule quotient_in_range)
      then show ?thesis using Fin t True s0
        by (simp add: ma_div_def ma_mul_def gap_or_value_def fl_of_Fin outside_domain_def)
    next
      case False
      then show ?thesis using Fin t
        by (simp add: ma_div_def ma_mul_def gap_or_value_def fl_of_Fin outside_domain_def)
    qed
  next
    case False
    then have "\<not> isfinite (div_fl (fl_of (flux_scaling quantity w * a)) scaling)"
      by (auto simp: fl_of_def)
    then show ?thesis using Fin False
      by (simp add: ma_div_def ma_mul_def gap_or_value_def)
  qed
next
  case PInf
  then show ?thesis by (simp add: ma_div_def ma_mul_def gap_or_value_def)
next
  case NInf
  then show ?thesis by (simp add: ma_div_def ma_mul_def gap_or_value_def)
next
  case NaN
  then show ?thesis by (simp add: ma_div_def ma_mul_def gap_or_value_def)
qed

lemma ma_scale_gap:
  "ma_scale quantity scaling (map fst spec) (ma_array (map snd spec)) =
   map (gap_or_value quantity scaling) spec"
  by (induction spec) (auto simp: ma_scale_def ma_array_def ma_scale_elem [simplified])

lemmas eval_defs = plot_spectrum_def draw_panels_def figure_layout_def plot_filters_def
  initial_state_def then_do_def emit_def
  set_scaling_def plot_single_def kw_get_def kw_set_def kw_set_key_def truthy_def the_dict_def
  ma_array_def ma_scale_def ma_mul_def ma_div_def flux_scaling_def fl_scale_def
  fl_of_small inside_domain_small broadcast_def
  has_key_def set_default_def dict_del_def kw_clash_def draw_obj_def
  plot_residuals_def plot_named_def plot_sample_def plot_envelope_def
  plot_object_def plot_object_spectrum_def plot_object_flux_def plot_measurement_def
  plot_flux_point_def plot_flux_default_def plot_flux_styled_def
  plot_synphot_def plot_filter_def E0_def first_wavelength_def
  residual_axis_def res_lim_def dashed_def dotted_def max_abs_finite_def nanmax_abs_def
  res_values_def plot_res_measurement_def plot_res_photometry_def plot_res_spectrum_def
  Let_def

lemma find_object_None: "find_object boxes = None \<longleftrightarrow> (\<forall>b \<in> set boxes. \<not> is_object_box b)"
  by (induction boxes) auto

subsection \<open>The length of \<open>plot_kwargs\<close>\<close>

text \<open>
  C1, as amended. When no item of \<open>boxes\<close> is an empty list, \<open>plot_kwargs\<close> is given and its
  length differs from the number of boxes, the call raises the length ValueError, and at
  that moment no call on the plotting library has been made: the figure does not exist
  yet and \<open>plot_kwargs\<close> is as the caller gave it.
\<close>

theorem kwargs_length_mismatch_raises_first:
  "BoxList [] \<notin> set boxes \<Longrightarrow> length boxes \<noteq> length kw \<Longrightarrow>
   plot_spectrum E boxes filters residuals (Some kw) envelope ylim ylim_res scale quantity
     = (Some LengthMismatch, \<lparr>events = [], plot_kwargs = kw, plot_obj = None\<rparr>)"
  by (simp add: plot_spectrum_def draw_panels_def initial_state_def then_do_def)

theorem kwargs_length_mismatch_raises_first_witness:
  "BoxList [] \<notin> set [BoxList [[(1, Fin 2)]], OtherBox] \<and>
   length [BoxList [[(1, Fin 2)]], OtherBox] \<noteq> length [Some [(''color'', VStr ''red'')]] \<and>
   plot_spectrum E0 [BoxList [[(1, Fin 2)]], OtherBox] (Some [''F'']) None
      (Some [Some [(''color'', VStr ''red'')]]) False None None None ''flux density''
     = (Some LengthMismatch,
        \<lparr>events = [], plot_kwargs = [Some [(''color'', VStr ''red'')]], plot_obj = None\<rparr>)"
  using kwargs_length_mismatch_raises_first
    [of "[BoxList [[(1, Fin 2)]], OtherBox]" "[Some [(''color'', VStr ''red'')]]" E0
      "Some [''F'']" None False None None None "''flux density''"]
  by simp

text \<open>
  C1 as stated fails: with an empty list among the boxes, the printing of the boxes
  (line 186) raises an IndexError before the length of \<open>plot_kwargs\<close> is looked at.
\<close>

theorem empty_list_item_raises_first:
  "plot_spectrum E0 [BoxList []] None None (Some []) False None None None ''flux density''
     = (Some IndexError, \<lparr>events = [], plot_kwargs = [], plot_obj = None\<rparr>)"
  by (simp add: plot_spectrum_def draw_panels_def initial_state_def then_do_def)

subsection \<open>Residuals without an ObjectBox\<close>

text \<open>
  C2, as amended. When residuals are given and no ObjectBox is among the boxes, the call
  always fails. The ObjectBox ValueError is raised after the figure, the boxes and the
  filter profiles have been drawn: the call either fails earlier with the error of those
  steps, or fails with the ObjectBox ValueError in the state that those steps leave.
\<close>

theorem residuals_without_object_box:
  assumes "\<forall>b \<in> set boxes. \<not> is_object_box b"
  shows "plot_spectrum E boxes filters (Some r) kwargs envelope ylim ylim_res scale quantity =
     (case draw_panels E boxes filters True kwargs envelope ylim scale quantity of
        (None, st) \<Rightarrow> (Some ObjectBoxNotFound, st)
      | (Some e, st) \<Rightarrow> (Some e, st))
    \<and> fst (plot_spectrum E boxes filters (Some r) kwargs envelope ylim ylim_res scale quantity)
        \<noteq> None"
proof -
  have "find_object boxes = None" using assms by (simp add: find_object_None)
  then show ?thesis
    by (auto simp: plot_spectrum_def then_do_def plot_residuals_def
        split: prod.splits option.splits)
qed

theorem residuals_without_object_box_witness:
  "\<not> is_object_box (ModelBox ''m'' [] [(1, Fin 2), (2, NaN)]) \<and>
   plot_spectrum E0 [ModelBox ''m'' [] [(1, Fin 2), (2, NaN)]] (Some [''F''])
      (Some \<lparr>res_photometry = None, res_spectrum = None\<rparr>) None False None None None ''flux'' =
     (Some ObjectBoxNotFound,
      \<lparr>events = [Figure [1, 3, 1], SetYLabel Ax1 (FluxLabel None),
                 Plot Ax1 [1, 2] [Some (Fin 2), None]
                   [(''lw'', VNum 0.5), (''label'', VStr ''m''), (''zorder'', VNum 2)],
                 Plot Ax2 [] [] [(''fmt'', VStr ''-''), (''lw'', VNum 0.7),
                                 (''color'', VStr ''tab:gray''), (''zorder'', VNum 1)]],
       plot_kwargs = [None], plot_obj = None\<rparr>)"
  using residuals_without_object_box
    [of "[ModelBox ''m'' [] [(1, Fin 2), (2, NaN)]]" E0 "Some [''F'']"
      "\<lparr>res_photometry = None, res_spectrum = None\<rparr>" None False None None None "''flux''"]
  by (simp add: draw_panels_def figure_layout_def plot_filters_def initial_state_def
      then_do_def emit_def set_scaling_def plot_single_def kw_get_def truthy_def
      ma_array_def ma_scale_def ma_mul_def ma_div_def flux_scaling_def plot_filter_def E0_def
      fl_of_small inside_domain_small Let_def)

text \<open>
  C2 as stated fails: with one SpectrumBox and residuals, the spectrum is drawn before the
  ValueError is raised.
\<close>

theorem residuals_error_after_drawing:
  "fst (plot_spectrum E0 [SpectrumBox [(1, Fin 2)]] None
          (Some \<lparr>res_photometry = None, res_spectrum = None\<rparr>) None False None None None
          ''flux density'') = Some ObjectBoxNotFound
   \<and> events (snd (plot_spectrum E0 [SpectrumBox [(1, Fin 2)]] None
          (Some \<lparr>res_photometry = None, res_spectrum = None\<rparr>) None False None None None
          ''flux density'')) =
       [Figure [4, 1], SetYLabel Ax1 (FluxDensityLabel None),
        Plot Ax1 [1] [Some (Fin 2)] [(''lw'', VNum 0.5), (''label'', VNone), (''zorder'', VNum 2)]]"
  by (simp add: eval_defs)

subsection \<open>The style list of repeated measurements\<close>

text \<open>
  C6. The code checks that the style of a filter with repeated measurements is a list,
  not how long the list is: for a filter with two measurements, a list of three
  dictionaries is accepted, and a list of one dictionary ends in an IndexError after the
  first measurement has been drawn.
\<close>

theorem style_list_length_unchecked:
  "fst (plot_spectrum E0
          [ObjectBox None (Some [(''F'', MultiFlux [(Fin 1, Fin 0.1), (Fin 2, Fin 0.1)])])]
          None None
          (Some [Some [(''F'', VList [VDict [], VDict [], VDict []])]])
          False None None None ''flux density'') = None
  \<and> fst (plot_spectrum E0
          [ObjectBox None (Some [(''F'', MultiFlux [(Fin 1, Fin 0.1), (Fin 2, Fin 0.1)])])]
          None None
          (Some [Some [(''F'', VList [VDict []])]])
          False None None None ''flux density'') = Some IndexError"
  by (simp add: eval_defs)

subsection \<open>Calling twice with the same list\<close>

text \<open>
  C8. A call with one SpectrumBox and \<open>plot_kwargs = [None]\<close> succeeds and leaves the
  caller's list as \<open>[None, None]\<close>; the second call with that list raises the length
  ValueError.
\<close>

theorem second_call_same_list_fails:
  "plot_spectrum E0 [SpectrumBox [(1, Fin 2)]] None None (Some [None]) False None None None
      ''flux density'' =
     (None,
      \<lparr>events = [Figure [1], SetYLabel Ax1 (FluxDensityLabel None),
                 Plot Ax1 [1] [Some (Fin 2)]
                   [(''lw'', VNum 0.5), (''label'', VNone), (''zorder'', VNum 2)]],
       plot_kwargs = [None, None], plot_obj = None\<rparr>)
   \<and> fst (plot_spectrum E0 [SpectrumBox [(1, Fin 2)]] None None
            (Some (plot_kwargs (snd (plot_spectrum E0 [SpectrumBox [(1, Fin 2)]] None None
                                       (Some [None]) False None None None ''flux density''))))
            False None None None ''flux density'') = Some LengthMismatch"
  by (simp add: eval_defs)

subsection \<open>The style that a SynphotBox borrows\<close>

text \<open>
  C9. When the style borrowed from the ObjectBox is a list, the code takes its first
  dictionary and removes \<open>label\<close> but not \<open>mfc\<close>: with \<open>mfc\<close> in that dictionary the draw
  call gets \<open>mfc\<close> twice and raises a TypeError.
\<close>

theorem borrowed_list_style_mfc_clash:
  "fst (plot_spectrum E0
          [ObjectBox None (Some [(''F'', MultiFlux [(Fin 1, Fin 0.1), (Fin 2, Fin 0.1)])]),
           SynphotBox [(''F'', Fin 1)]]
          None None
          (Some [Some [(''F'', VList [VDict [(''mfc'', VStr ''red'')], VDict []])], None])
          False None None None ''flux density'') = Some TypeError"
  by (simp add: eval_defs)

subsection \<open>Non-finite flux samples\<close>

lemma for_each_plot_named:
  "for_each (plot_named quantity scaling) specs st =
   (None, st\<lparr>events := events st @
      map (\<lambda>item. Plot Ax1 (map fst (snd item))
                    (ma_scale quantity scaling (map fst (snd item)) (ma_array (map snd (snd item))))
                    [(''lw'', VNum 0.5), (''label'', VStr (fst item))]) specs\<rparr>)"
  by (induction specs arbitrary: st) (auto simp: plot_named_def emit_def Let_def)

lemma map_of_dict_del [simp]:
  "map_of (dict_del k d) k' = (if k' = k then None else map_of d k')"
  by (induction d) (auto simp: dict_del_def)

lemma map_of_dict_set [simp]:
  "map_of (dict_set k v d) k' = (if k' = k then Some v else map_of d k')"
  by (induction d) auto

lemma plot_single_draws:
  assumes "j < length (plot_kwargs st)" and "spec \<noteq> []"
  shows "\<exists>kws. plot_single quantity scaling j label spec st =
           (None, emit (Plot Ax1 (map fst spec) (map (gap_or_value quantity scaling) spec) kws) st)"
  using assms
  by (auto simp: plot_single_def kw_get_def Let_def ma_scale_gap
      kw_clash_def has_key_def set_default_def)

lemma gap_or_value_unscaled:
  assumes "quantity \<noteq> ''flux''" and "\<bar>a\<bar> * tiny < 1"
  shows "gap_or_value quantity 1 (w, Fin a) = Some (Fin a)"
proof -
  have "\<bar>a / 1\<bar> \<le> fmax" using assms(2) by (intro quotient_in_range) simp
  then show ?thesis using assms by (simp add: gap_or_value_def flux_scaling_def)
qed

text \<open>
  C7, as amended. Drawing a SpectrumBox or a ModelBox that has samples raises nothing,
  whatever the flux values are. When \<open>wavelength[0]\<close> is a NumPy float or an array, there
  is one \<open>plot\<close> call per spectrum, whose y data have a gap at every sample that is not
  finite (NaN, plus or minus infinity); a finite sample is drawn as the wavelength
  weighting times the flux over the scaling, and is a gap as well when the weighted flux
  is beyond the float range or outside the domain of the masked division. With no
  wavelength weighting and scaling 1 the value drawn is the flux itself. When
  \<open>wavelength[0]\<close> is of another type, the box is not drawn. \<open>j\<close> is the index of the box,
  which the loop keeps inside \<open>plot_kwargs\<close>.
\<close>

theorem nonfinite_flux_is_gap:
  assumes "j < length (plot_kwargs st)"
  shows "(spec \<noteq> [] \<longrightarrow>
          (\<exists>kws. draw_box E quantity scaling envelope boxes j (SpectrumBox spec) st =
             (None, emit (Plot Ax1 (map fst spec) (map (gap_or_value quantity scaling) spec) kws) st))
        \<and> (\<exists>kws. draw_box E quantity scaling envelope boxes j (ModelBox model param spec) st =
             (None, emit (Plot Ax1 (map fst spec) (map (gap_or_value quantity scaling) spec) kws) st))
        \<and> draw_box E quantity scaling envelope boxes j (SpectrumBoxOther spec) st = (None, st)
        \<and> draw_box E quantity scaling envelope boxes j (ModelBoxOther model param spec) st
            = (None, st))
    \<and> (specs \<noteq> [] \<longrightarrow>
         draw_box E quantity scaling envelope boxes j (SpectrumBoxes specs) st =
           (None, st\<lparr>events := events st @
              map (\<lambda>item. Plot Ax1 (map fst (snd item))
                            (map (gap_or_value quantity scaling) (snd item))
                            [(''lw'', VNum 0.5), (''label'', VStr (fst item))]) specs\<rparr>))
    \<and> (\<not> isfinite x \<longrightarrow> gap_or_value quantity scaling (w, x) = None)
    \<and> gap_or_value quantity scaling (w, Fin a) =
        (if \<bar>flux_scaling quantity w * a\<bar> \<le> fmax
            \<and> \<bar>flux_scaling quantity w * a\<bar> * tiny < \<bar>scaling\<bar>
         then Some (Fin (flux_scaling quantity w * a / scaling)) else None)
    \<and> (quantity \<noteq> ''flux'' \<and> \<bar>a\<bar> * tiny < 1 \<longrightarrow>
         gap_or_value quantity 1 (w, Fin a) = Some (Fin a))"
proof -
  have 1: "spec \<noteq> [] \<Longrightarrow>
      \<exists>kws. draw_box E quantity scaling envelope boxes j (SpectrumBox spec) st =
        (None, emit (Plot Ax1 (map fst spec) (map (gap_or_value quantity scaling) spec) kws) st)"
    using assms plot_single_draws [of j st spec quantity scaling VNone] by simp
  have 2: "spec \<noteq> [] \<Longrightarrow>
      \<exists>kws. draw_box E quantity scaling envelope boxes j (ModelBox model param spec) st =
        (None, emit (Plot Ax1 (map fst spec) (map (gap_or_value quantity scaling) spec) kws) st)"
    using assms
      plot_single_draws [of j st spec quantity scaling "create_model_label E model param"]
    by simp
  have 3: "\<not> isfinite x \<Longrightarrow> gap_or_value quantity scaling (w, x) = None"
    by (cases x) (simp_all add: gap_or_value_def)
  show ?thesis
    using 1 2 3 gap_or_value_unscaled [of quantity a w]
    by (simp add: for_each_plot_named ma_scale_gap gap_or_value_def)
qed

theorem nonfinite_flux_is_gap_witness:
  "draw_box E0 ''flux density'' 1 False [SpectrumBox [(1, Fin 2), (2, NaN), (3, PInf), (4, NInf)]] 0
     (SpectrumBox [(1, Fin 2), (2, NaN), (3, PInf), (4, NInf)])
     \<lparr>events = [], plot_kwargs = [None], plot_obj = None\<rparr> =
   (None, \<lparr>events = [Plot Ax1 [1, 2, 3, 4] [Some (Fin 2), None, None, None]
                        [(''lw'', VNum 0.5), (''label'', VNone), (''zorder'', VNum 2)]],
            plot_kwargs = [None], plot_obj = None\<rparr>)
   \<and> gap_or_value ''flux density'' 1 (3, PInf) = None
   \<and> gap_or_value ''flux density'' 1 (1, Fin 2) = Some (Fin 2)"
  using nonfinite_flux_is_gap [of 0 "\<lparr>events = [], plot_kwargs = [None], plot_obj = None\<rparr>"
      "[(1, Fin 2), (2, NaN), (3, PInf), (4, NInf)]" E0 "''flux density''" 1 False
      "[SpectrumBox [(1, Fin 2), (2, NaN), (3, PInf), (4, NInf)]]" "''m''" "[]" "[]" PInf 3 2]
  by (simp add: eval_defs gap_or_value_def fmax_def tiny_def)

text \<open>
  C7 as stated fails: with \<open>quantity == "flux"\<close> the finite flux \<open>1e308\<close> at wavelength 10
  overflows in the weighting, and the sample is drawn as a gap.
\<close>

theorem finite_flux_overflow_is_gap:
  "plot_spectrum E0 [SpectrumBox [(10, Fin (10 ^ 308))]] None None None False None None None
     ''flux'' =
   (None,
    \<lparr>events = [Figure [1], SetYLabel Ax1 (FluxLabel None),
               Plot Ax1 [10] [None]
                 [(''lw'', VNum 0.5), (''label'', VNone), (''zorder'', VNum 2)]],
     plot_kwargs = [None], plot_obj = None\<rparr>)"
  by (simp add: eval_defs fl_of_def fmax_def)

subsection \<open>Which styles are copied\<close>

lemma writes_only_refl [simp]: "writes_only j st st"
  by (simp add: writes_only_def)


lemma writes_only_emit [simp]: "writes_only j st (emit ev st') = writes_only j st st'"
  by (simp add: writes_only_def emit_def)

lemma writes_only_draw_obj [simp]:
  "writes_only j st (draw_obj E ev kws st') = writes_only j st st'"
  by (simp add: writes_only_def draw_obj_def emit_def)

lemma writes_only_kw_set [simp]: "writes_only j st (kw_set j d st') = writes_only j st st'"
  by (auto simp: writes_only_def kw_set_def)

lemma writes_only_kw_set_key [simp]:
  "writes_only j st (kw_set_key j k v st') = writes_only j st st'"
  by (auto simp: writes_only_def kw_set_key_def kw_set_def)


lemma plot_single_writes_only:
  "writes_only j st (snd (plot_single quantity scaling j label spec st))"
  by (auto simp: plot_single_def Let_def split: sum.splits)

lemma plot_named_writes_only:
  "writes_only j st (snd (plot_named quantity scaling item st))"
  by (simp add: plot_named_def Let_def)



































subsection \<open>The magnitude mode\<close>



subsection \<open>The residual panel\<close>

text \<open>
  C4. The largest residual of a spectrum is taken with \<open>np.nanmax\<close> (line 1164), which
  skips NaN but not the infinities, where the photometric loop keeps the finite values
  only (line 1140): with an infinite residual in a spectrum, \<open>math.ceil\<close> raises an
  OverflowError after the residuals have been drawn, and neither the reference line at 0
  nor the y-limit is set, although the finite residuals have the maximum 2. A photometric
  entry with no finite value ends the call in the ValueError of \<open>np.max\<close> on an empty
  array, although another entry has a finite residual.
\<close>

theorem infinite_residual_overflow:
  "plot_spectrum E0 [ObjectBox None None] None
      (Some \<lparr>res_photometry = None,
             res_spectrum = Some [(''S'', [(1, Fin 2), (2, PInf)])]\<rparr>)
      None False None None None ''flux density'' =
   (Some OverflowError,
    \<lparr>events = [Figure [4, 1], SetYLabel Ax1 (FluxDensityLabel None),
               ErrorBar Ax3 [1, 2] [Some (Fin 2), Some PInf] None
                 [(''marker'', VStr ''o''), (''ms'', VNum 2), (''ls'', VStr ''none''),
                  (''zorder'', VNum 1)]],
     plot_kwargs = [None], plot_obj = None\<rparr>)
   \<and> plot_spectrum E0 [ObjectBox None None] None
      (Some \<lparr>res_photometry = Some [(''F'', Res1 1 NaN), (''G'', Res1 2 (Fin 2))],
             res_spectrum = None\<rparr>)
      None False None None None ''flux density'' =
   (Some EmptyReduction,
    \<lparr>events = [Figure [4, 1], SetYLabel Ax1 (FluxDensityLabel None),
               Plot Ax3 [1] [Some NaN]
                 [(''marker'', VStr ''s''), (''ms'', VNum 5), (''linestyle'', VStr ''none''),
                  (''zorder'', VNum 2)]],
     plot_kwargs = [None], plot_obj = None\<rparr>)"
  by (simp add: eval_defs)

end
